theory Spec2Isabelle
  imports Main "HOL-Library.Word"
begin

section \<open>Python values used by app.py\<close>

text \<open>
  A Python \<open>str\<close> is a sequence of Unicode code points, so it is modelled as a list of
  natural numbers (the code points), not as a list of bytes: \<open>str.strip\<close> works on
  code points, and one catalog template holds U+2014. \<open>bytes\<close> is a list of octets.
\<close>

type_synonym pystr = "nat list"

type_synonym pybytes = "8 word list"

definition ascii :: "string \<Rightarrow> pystr" where
  \<comment> \<open>the \<open>str\<close> written by an ASCII literal of the source\<close>
  "ascii s = map of_char s"

definition isspace :: "nat \<Rightarrow> bool" where
  \<comment> \<open>the code points \<open>str.strip()\<close> removes when called without argument\<close>
  "isspace c \<longleftrightarrow>
     (9 \<le> c \<and> c \<le> 13) \<or> (28 \<le> c \<and> c \<le> 32) \<or> c = 133 \<or> c = 160 \<or> c = 5760 \<or>
     (8192 \<le> c \<and> c \<le> 8202) \<or> c = 8232 \<or> c = 8233 \<or> c = 8239 \<or> c = 8287 \<or> c = 12288"

definition strip :: "pystr \<Rightarrow> pystr" where
  \<comment> \<open>\<open>s.strip()\<close>: leading and trailing whitespace removed\<close>
  "strip s = rev (dropWhile isspace (rev (dropWhile isspace s)))"

definition truthy :: "pystr option \<Rightarrow> bool" where
  \<comment> \<open>the truth value of an \<open>Optional[str]\<close>: \<open>None\<close> and \<open>""\<close> are false\<close>
  "truthy v = (case v of None \<Rightarrow> False | Some s \<Rightarrow> s \<noteq> [])"

definition py_or :: "pystr option \<Rightarrow> pystr option \<Rightarrow> pystr option" where
  \<comment> \<open>\<open>a or b\<close>: the left operand when it is true, the right operand otherwise\<close>
  "py_or a b = (if truthy a then a else b)"

section \<open>The environment (lines 9, 12 and 99)\<close>

text \<open>
  An environment is \<open>os.environ\<close> as one run of the script finds it after
  \<open>load_dotenv()\<close>: line 12 and line 99 of the same run read the same one.
\<close>

type_synonym environ = "pystr \<rightharpoonup> pystr"

definition getenv :: "environ \<Rightarrow> pystr \<Rightarrow> pystr option" where
  \<comment> \<open>\<open>os.getenv(name)\<close>: \<open>None\<close> for a variable that is not set\<close>
  "getenv env name = env name"

definition resolve_api_key :: "environ \<Rightarrow> pystr option" where
  \<comment> \<open>the expression \<open>os.getenv("GEMINI_API_KEY") or os.getenv("GOOGLE_API_KEY")\<close>,
      written once on line 12 and once on line 99\<close>
  "resolve_api_key env =
     py_or (getenv env (ascii ''GEMINI_API_KEY'')) (getenv env (ascii ''GOOGLE_API_KEY''))"

section \<open>What the libraries do\<close>

record Client =
  api_key :: "pystr option"

record Part =
  data :: pybytes
  mime_type :: pystr

record UploadedFile =
  getvalue :: pybytes
  file_type :: pystr

text \<open>
  One call of \<open>client.models.generate_content\<close>: the client it goes through, the model
  name and the two-element \<open>contents\<close> list, a prompt and an image part.
\<close>

record generate_content_call =
  through :: Client
  model :: pystr
  contents :: "pystr \<times> Part"

text \<open>
  What the program cannot compute by itself is a parameter:
  \<^item> the remote service, which answers a call with a response text (\<open>Inr\<close>) or raises an
    exception whose \<open>str\<close> is the given message (\<open>Inl\<close>);
  \<^item> the interpreter's \<open>repr\<close> of a \<open>str\<close>, which is the text of a \<open>KeyError\<close>;
  \<^item> whether \<open>Image.open\<close> and \<open>st.image\<close> of lines 73 and 74 accept an upload;
  \<^item> whether the process is set up for Vertex AI, the one set-up in which
    \<open>genai.Client\<close> is built without a key.
\<close>

record runtime =
  generate_content :: "generate_content_call \<Rightarrow> pystr + pystr"
  repr :: "pystr \<Rightarrow> pystr"
  Image_open :: "UploadedFile \<Rightarrow> bool"
  vertexai :: bool

text \<open>The exceptions of the \<open>try\<close> block, which line 116 catches.\<close>

datatype exn = KeyError pystr | Exception pystr

fun str_exn :: "runtime \<Rightarrow> exn \<Rightarrow> pystr" where
  "str_exn rt (KeyError k) = repr rt k"
| "str_exn rt (Exception m) = m"

text \<open>
  What ends a run of the script before it reaches line 98, outside any \<open>try\<close>: the
  \<open>ValueError\<close> of \<open>genai.Client\<close> on line 12, the error of the image preview on lines 73
  and 74, and a position that the selection control does not offer (no user can pick
  one; the case only makes the model total).
\<close>

datatype stop = ClientError | ImageError | OutOfRange

section \<open>The client (line 12)\<close>

definition genai_Client :: "runtime \<Rightarrow> pystr option \<Rightarrow> stop + Client" where
  \<comment> \<open>\<open>genai.Client(api_key=k)\<close>: without a key, and the environment variables that could
      supply one are the two that \<open>k\<close> was read from, the constructor raises; otherwise the
      client keeps the argument it was built with\<close>
  "genai_Client rt k = (if truthy k \<or> vertexai rt then Inr \<lparr>api_key = k\<rparr> else Inl ClientError)"

definition client :: "runtime \<Rightarrow> environ \<Rightarrow> stop + Client" where
  "client rt env = genai_Client rt (resolve_api_key env)"

section \<open>The prompt catalog (lines 15 to 22)\<close>

text \<open>
  A \<open>dict\<close> literal keeps the order in which its keys are written, so the catalog is an
  association list; \<open>map_of\<close> is the lookup. The two dashes of the fourth template are
  the code point 8212 (U+2014).
\<close>

definition PROMPT_OPTIONS :: "(pystr \<times> pystr) list" where
  "PROMPT_OPTIONS =
   [(ascii ''Describe'',
     ascii ''You are a historian. Provide a comprehensive description of the historical artifact in the image. Include its physical appearance, materials, craftsmanship, and overall significance.''),
    (ascii ''Identify & Classify'',
     ascii ''You are an expert art historian. Identify and classify the artifact in the image. Specify its type, estimated era or period, materials used, cultural origin, and any distinguishing features that help with identification.''),
    (ascii ''Historical Context'',
     ascii ''You are a historian. Analyze the historical context of this artifact. Explain the time period it comes from, the historical events or culture it relates to, and how it would have been used or valued in its time.''),
    (ascii ''Origin & Significance'',
     ascii ''You are a cultural historian. Describe the origin of this artifact'' @ [8212] @
     ascii ''where it likely came from, the culture that produced it'' @ [8212] @
     ascii ''and explain its historical and cultural significance. Why does it matter today?''),
    (ascii ''Cultural Analysis'',
     ascii ''You are an expert in cultural heritage. Analyze the artifact's cultural meaning, symbolism, religious or social significance, and how it reflects the values or beliefs of the people who created it.''),
    (ascii ''Conservation & Condition'',
     ascii ''You are a museum conservator. Assess the artifact's current condition, visible signs of wear or aging, potential materials and techniques used in its creation, and any conservation considerations or restoration that might be relevant.'')]"

section \<open>The request (lines 25 to 33)\<close>

definition full_prompt :: "pystr \<Rightarrow> pystr \<Rightarrow> pystr" where
  \<comment> \<open>the local \<open>full_prompt\<close> of line 26; 10 is the line feed\<close>
  "full_prompt input_text prompt =
     (if strip input_text \<noteq> []
      then prompt @ [10, 10] @ ascii ''Additional context from user: '' @ input_text
      else prompt)"

definition get_gemini_response ::
  "runtime \<Rightarrow> Client \<Rightarrow> pystr \<Rightarrow> pybytes \<Rightarrow> pystr \<Rightarrow> pystr \<Rightarrow>
     (exn + pystr) \<times> generate_content_call list" where
  \<comment> \<open>the result, or the exception raised, and the calls made on the way\<close>
  "get_gemini_response rt cl input_text image_bytes mime prompt =
     (let image_part = \<lparr>data = image_bytes, mime_type = mime\<rparr>;
          call = \<lparr>through = cl, model = ascii ''gemini-3-flash-preview'',
                  contents = (full_prompt input_text prompt, image_part)\<rparr>
      in (case generate_content rt call of
            Inl m \<Rightarrow> Inl (Exception m)
          | Inr response_text \<Rightarrow> Inr response_text,
          [call]))"

section \<open>The page (lines 65 to 117)\<close>

text \<open>What \<open>st.error\<close>, \<open>st.subheader\<close> and \<open>st.markdown\<close> draw, in the order of the calls.\<close>

datatype element = st_error pystr | st_subheader pystr | st_markdown pystr

definition selectbox :: "pystr list \<Rightarrow> nat \<Rightarrow> nat option \<Rightarrow> pystr option" where
  \<comment> \<open>\<open>st.selectbox(options=..., index=...)\<close>: the option the user picked, by position,
      or the one at \<open>index\<close> when the user picked none; nothing from outside \<open>options\<close>\<close>
  "selectbox options index pick =
     (let i = (case pick of None \<Rightarrow> index | Some j \<Rightarrow> j)
      in if i < length options then Some (options ! i) else None)"

text \<open>
  The module's two globals. The handler reads them; it is given them and hands them
  back, so that what it does to them is a theorem.
\<close>

record module_globals =
  g_client :: Client
  g_PROMPT_OPTIONS :: "(pystr \<times> pystr) list"

definition module_init :: "runtime \<Rightarrow> environ \<Rightarrow> stop + module_globals" where
  \<comment> \<open>lines 12 and 15 to 22: when line 12 raises, the catalog is never built\<close>
  "module_init rt env =
     (case client rt env of
        Inl e \<Rightarrow> Inl e
      | Inr c \<Rightarrow> Inr \<lparr>g_client = c, g_PROMPT_OPTIONS = PROMPT_OPTIONS\<rparr>)"

definition prompt_choice_widget :: "module_globals \<Rightarrow> nat option \<Rightarrow> pystr option" where
  \<comment> \<open>lines 79 to 84: \<open>options=list(PROMPT_OPTIONS.keys()), index=0\<close>\<close>
  "prompt_choice_widget g pick = selectbox (map fst (g_PROMPT_OPTIONS g)) 0 pick"

text \<open>
  The inputs of one press of the button: the environment as line 99 reads it, the
  uploaded file (\<open>None\<close> when there is none), the selected label and the free text.
\<close>

record submission =
  environ :: environ
  uploaded_file :: "UploadedFile option"
  prompt_choice :: pystr
  input_text :: "pystr option"

record outcome =
  rendered :: "element list"
  calls :: "generate_content_call list"

definition or_empty :: "pystr option \<Rightarrow> pystr" where
  \<comment> \<open>\<open>input_text or ""\<close> of line 110\<close>
  "or_empty text = (case py_or text (Some []) of None \<Rightarrow> [] | Some t \<Rightarrow> t)"

definition try_block ::
  "runtime \<Rightarrow> module_globals \<Rightarrow> UploadedFile \<Rightarrow> pystr \<Rightarrow> pystr option \<Rightarrow>
     (exn + unit) \<times> outcome" where
  \<comment> \<open>lines 107 to 115: the exception that leaves the block, if any, with what was
      drawn and called before it; 128220 is U+1F4DC, the pictograph of the heading\<close>
  "try_block rt g f choice text =
     (let image_bytes = getvalue f
      in case map_of (g_PROMPT_OPTIONS g) choice of
           None \<Rightarrow> (Inl (KeyError choice), \<lparr>rendered = [], calls = []\<rparr>)
         | Some selected_prompt \<Rightarrow>
             (case get_gemini_response rt (g_client g) (or_empty text)
                     image_bytes (file_type f) selected_prompt of
                (Inl e, cs) \<Rightarrow> (Inl e, \<lparr>rendered = [], calls = cs\<rparr>)
              | (Inr response, cs) \<Rightarrow>
                  (Inr (),
                   \<lparr>rendered = [st_subheader ([128220] @ ascii '' Result: '' @ choice),
                                st_markdown (ascii ''---''),
                                st_markdown response],
                    calls = cs\<rparr>)))"

definition submit_handler ::
  "runtime \<Rightarrow> module_globals \<Rightarrow> submission \<Rightarrow> module_globals \<times> outcome" where
  \<comment> \<open>lines 99 to 117, the body of \<open>if submit:\<close>\<close>
  "submit_handler rt g s =
     (let api_key = resolve_api_key (environ s)
      in if \<not> truthy api_key
         then (g, \<lparr>rendered = [st_error (ascii ''Add GEMINI_API_KEY or GOOGLE_API_KEY to your .env file.'')],
                   calls = []\<rparr>)
         else case uploaded_file s of
                None \<Rightarrow> (g, \<lparr>rendered = [st_error (ascii ''Please upload an image first.'')],
                              calls = []\<rparr>)
              | Some f \<Rightarrow>
                  (case try_block rt g f (prompt_choice s) (input_text s) of
                     (Inr u, out) \<Rightarrow> (g, out)
                   | (Inl e, out) \<Rightarrow>
                       (g, out\<lparr>rendered := rendered out @ [st_error (ascii ''Error: '' @ str_exn rt e)]\<rparr>)))"

text \<open>
  One run of the script. The framework executes the script from line 1 each time the
  user acts on the page, and the script keeps nothing from one run to the next. A run is
  given the environment of that moment and the state of the four controls: the upload,
  the position picked in the selection control (\<open>None\<close> when the user picked none), the
  free text, and whether the button was pressed. It ends with what lines 98 to 117
  have drawn and called, the uncaught exception that stopped it, if any, and the globals
  as the run leaves them.
\<close>

record interaction =
  i_uploaded_file :: "UploadedFile option"
  i_pick :: "nat option"
  i_input_text :: pystr
  i_submit :: bool

record run_result = outcome +
  stopped :: "stop option"
  final_globals :: "module_globals option"

definition script_run :: "runtime \<Rightarrow> environ \<Rightarrow> interaction \<Rightarrow> run_result" where
  "script_run rt env ia =
     (case module_init rt env of
        Inl e \<Rightarrow> \<lparr>rendered = [], calls = [], stopped = Some e, final_globals = None\<rparr>
      | Inr g \<Rightarrow>
          if (case i_uploaded_file ia of None \<Rightarrow> False | Some f \<Rightarrow> \<not> Image_open rt f)
          then \<lparr>rendered = [], calls = [], stopped = Some ImageError, final_globals = Some g\<rparr>
          else (case prompt_choice_widget g (i_pick ia) of
                  None \<Rightarrow> \<lparr>rendered = [], calls = [], stopped = Some OutOfRange, final_globals = Some g\<rparr>
                | Some choice \<Rightarrow>
                    if i_submit ia
                    then (case submit_handler rt g
                                 \<lparr>environ = env, uploaded_file = i_uploaded_file ia,
                                  prompt_choice = choice, input_text = Some (i_input_text ia)\<rparr> of
                            (g', out) \<Rightarrow>
                              \<lparr>rendered = rendered out, calls = calls out, stopped = None,
                               final_globals = Some g'\<rparr>)
                    else \<lparr>rendered = [], calls = [], stopped = None, final_globals = Some g\<rparr>))"

definition session :: "(runtime \<times> environ \<times> interaction) list \<Rightarrow> run_result list" where
  \<comment> \<open>the runs of a session, one for each interaction, each from line 1\<close>
  "session runs = map (\<lambda>(rt, env, ia). script_run rt env ia) runs"

definition keys_used :: "run_result \<Rightarrow> pystr option list" where
  \<comment> \<open>the key of the client behind each call of a run\<close>
  "keys_used r = map (\<lambda>c. api_key (through c)) (calls r)"

text \<open>
  The globals of a run whose client was built, and the one call a submission makes when
  it gets as far as the service.
\<close>

abbreviation globals_in :: "environ \<Rightarrow> module_globals" where
  "globals_in env \<equiv> \<lparr>g_client = \<lparr>api_key = resolve_api_key env\<rparr>, g_PROMPT_OPTIONS = PROMPT_OPTIONS\<rparr>"

abbreviation issued_call :: "module_globals \<Rightarrow> UploadedFile \<Rightarrow> pystr option \<Rightarrow> pystr \<Rightarrow> generate_content_call" where
  "issued_call g f text template \<equiv>
     \<lparr>through = g_client g, model = ascii ''gemini-3-flash-preview'',
      contents = (full_prompt (or_empty text) template, \<lparr>data = getvalue f, mime_type = file_type f\<rparr>)\<rparr>"

section \<open>Concrete inputs for the examples\<close>

definition png_file :: UploadedFile where
  \<comment> \<open>a complete PNG file of one grey pixel: signature, IHDR, IDAT and IEND chunks\<close>
  "png_file =
     \<lparr>getvalue =
        [0x89, 0x50, 0x4E, 0x47, 0x0D, 0x0A, 0x1A, 0x0A, 0x00, 0x00, 0x00, 0x0D, 0x49, 0x48, 0x44, 0x52,
         0x00, 0x00, 0x00, 0x01, 0x00, 0x00, 0x00, 0x01, 0x08, 0x00, 0x00, 0x00, 0x00, 0x3A, 0x7E, 0x9B,
         0x55, 0x00, 0x00, 0x00, 0x0A, 0x49, 0x44, 0x41, 0x54, 0x78, 0xDA, 0x63, 0x60, 0x00, 0x00, 0x00,
         0x02, 0x00, 0x01, 0xE5, 0x27, 0xDE, 0xFC, 0x00, 0x00, 0x00, 0x00, 0x49, 0x45, 0x4E, 0x44, 0xAE,
         0x42, 0x60, 0x82],
      file_type = ascii ''image/png''\<rparr>"

definition quoting :: "pystr \<Rightarrow> pystr" where
  \<comment> \<open>stands for \<open>repr\<close> in the examples: single quotes around the text\<close>
  "quoting k = [39] @ k @ [39]"

definition opens :: "UploadedFile \<Rightarrow> bool" where
  \<comment> \<open>stands for the image preview in the examples: it accepts the PNG file above and
      no other upload\<close>
  "opens f = (f = png_file)"

definition answering :: "pystr \<Rightarrow> runtime" where
  \<comment> \<open>a service that answers every call with the same text; no Vertex AI\<close>
  "answering t =
     \<lparr>generate_content = (\<lambda>c. Inr t), repr = quoting, Image_open = opens, vertexai = False\<rparr>"

definition failing :: "pystr \<Rightarrow> runtime" where
  \<comment> \<open>a service that fails every call with the same message; no Vertex AI\<close>
  "failing m =
     \<lparr>generate_content = (\<lambda>c. Inl m), repr = quoting, Image_open = opens, vertexai = False\<rparr>"

definition env_of :: "(string \<times> string) list \<Rightarrow> environ" where
  \<comment> \<open>an environment written as a list of settings\<close>
  "env_of kvs = map_of (map (\<lambda>(k, v). (ascii k, ascii v)) kvs)"

section \<open>Strings and truth values\<close>

lemma strip_empty_iff: "strip s = [] \<longleftrightarrow> (\<forall>c \<in> set s. isspace c)"
proof (cases "dropWhile isspace s")
  case Nil
  then have "strip s = []" by (simp add: strip_def del: dropWhile_eq_Nil_conv)
  moreover from Nil have "\<forall>c \<in> set s. isspace c" by simp
  ultimately show ?thesis by simp
next
  case (Cons a as)
  then have a: "\<not> isspace a" using hd_dropWhile[of isspace s] by simp
  from Cons have "a \<in> set s" by (metis list.set_intros(1) set_dropWhileD)
  with a have "\<not> (\<forall>c \<in> set s. isspace c)" by blast
  moreover from Cons a have "strip s \<noteq> []" by (simp add: strip_def)
  ultimately show ?thesis by simp
qed

lemma ascii_eq_iff: "ascii s = ascii t \<longleftrightarrow> s = t"
  unfolding ascii_def by (rule inj_map_eq_map) (simp add: inj_on_def)

lemma get_gemini_response_calls:
  "snd (get_gemini_response rt cl text image_bytes mime prompt) =
     [\<lparr>through = cl, model = ascii ''gemini-3-flash-preview'',
       contents = (full_prompt text prompt, \<lparr>data = image_bytes, mime_type = mime\<rparr>)\<rparr>]"
  by (simp add: get_gemini_response_def Let_def)

text \<open>
  Claim C1. When the free text is not empty after trimming, the composed prompt is the
  template, a blank line (two line feeds), the label \<open>Additional context from user: \<close>
  and the free text as it was typed, untrimmed; this is the prompt of the one call made.
\<close>

theorem composed_prompt_with_context:
  assumes "strip text \<noteq> []"
  shows "full_prompt text prompt =
           prompt @ [10, 10] @ ascii ''Additional context from user: '' @ text \<and>
         map (\<lambda>c. fst (contents c)) (snd (get_gemini_response rt cl text image_bytes mime prompt)) =
           [prompt @ [10, 10] @ ascii ''Additional context from user: '' @ text]"
  using assms by (simp add: full_prompt_def get_gemini_response_calls)

theorem composed_prompt_with_context_witness:
  "strip (ascii '' bronze axe '') \<noteq> [] \<and>
   full_prompt (ascii '' bronze axe '') (ascii ''You are a historian.'') =
     ascii ''You are a historian.'' @ [10, 10] @ ascii ''Additional context from user:  bronze axe ''"
proof -
  have h: "strip (ascii '' bronze axe '') \<noteq> []"
    by (simp add: strip_def ascii_def isspace_def)
  show ?thesis
    using h composed_prompt_with_context [OF h, of "ascii ''You are a historian.''"]
    by (simp add: ascii_def)
qed

text \<open>
  Claim C2. When the free text is empty or holds only whitespace, the composed prompt is
  the template itself, with nothing appended; this is the prompt of the one call made.
\<close>

theorem composed_prompt_without_context:
  assumes "\<forall>c \<in> set text. isspace c"
  shows "full_prompt text prompt = prompt \<and>
         map (\<lambda>c. fst (contents c)) (snd (get_gemini_response rt cl text image_bytes mime prompt)) =
           [prompt]"
  using assms by (simp add: full_prompt_def get_gemini_response_calls strip_empty_iff)

theorem composed_prompt_without_context_witness:
  "list_all isspace [32, 9, 10, 160, 12288] \<and>
   full_prompt [32, 9, 10, 160, 12288] (ascii ''You are a historian.'') = ascii ''You are a historian.'' \<and>
   full_prompt [] (ascii ''You are a historian.'') = ascii ''You are a historian.''"
proof -
  have h: "\<forall>c \<in> set [32, 9, 10, 160, 12288]. isspace c"
    by (simp add: isspace_def)
  have e: "\<forall>c \<in> set ([] :: pystr). isspace c"
    by simp
  show ?thesis
    using h composed_prompt_without_context [OF h, of "ascii ''You are a historian.''"]
      composed_prompt_without_context [OF e, of "ascii ''You are a historian.''"]
    by (simp add: list_all_iff)
qed

lemma or_empty_simps:
  "or_empty None = []" "or_empty (Some t) = t"
  by (simp_all add: or_empty_def py_or_def truthy_def)

lemma truthy_simps:
  "truthy None = False" "truthy (Some t) = (t \<noteq> [])"
  by (simp_all add: truthy_def)

lemma ascii_Nil_iff: "ascii s = [] \<longleftrightarrow> s = []"
  by (simp add: ascii_def)

lemma resolve_api_key_env_of_empty: "resolve_api_key (env_of []) = None"
  by (simp add: resolve_api_key_def env_of_def py_or_def getenv_def truthy_def)

text \<open>
  Claim C4. With a key and without an uploaded file, the handler draws the input message
  and makes no call to the service.
\<close>

theorem key_without_image_gives_input_error:
  assumes "truthy (resolve_api_key (environ s))" and "uploaded_file s = None"
  shows "submit_handler rt g s =
           (g, \<lparr>rendered = [st_error (ascii ''Please upload an image first.'')], calls = []\<rparr>)"
  using assms by (simp add: submit_handler_def)

theorem key_without_image_gives_input_error_witness:
  "snd (submit_handler (answering (ascii ''A bronze axe head.'')) (globals_in (env_of [(''GOOGLE_API_KEY'', ''k1'')]))
          \<lparr>environ = env_of [(''GOOGLE_API_KEY'', ''k1'')], uploaded_file = None,
           prompt_choice = ascii ''Describe'', input_text = Some []\<rparr>) =
     \<lparr>rendered = [st_error (ascii ''Please upload an image first.'')], calls = []\<rparr>"
proof -
  have h1: "truthy (resolve_api_key (environ
      \<lparr>environ = env_of [(''GOOGLE_API_KEY'', ''k1'')], uploaded_file = None,
       prompt_choice = ascii ''Describe'', input_text = Some []\<rparr>))"
    by (simp add: resolve_api_key_def env_of_def py_or_def getenv_def truthy_def ascii_eq_iff ascii_Nil_iff)
  have h2: "uploaded_file \<lparr>environ = env_of [(''GOOGLE_API_KEY'', ''k1'')], uploaded_file = None,
       prompt_choice = ascii ''Describe'', input_text = Some []\<rparr> = None"
    by simp
  show ?thesis
    using key_without_image_gives_input_error [OF h1 h2] by simp
qed

section \<open>The submit handler\<close>

lemma try_block_generation:
  assumes "map_of (g_PROMPT_OPTIONS g) choice = Some template"
  shows "try_block rt g f choice text =
           (case generate_content rt (issued_call g f text template) of
              Inl m \<Rightarrow> (Inl (Exception m), \<lparr>rendered = [], calls = [issued_call g f text template]\<rparr>)
            | Inr t \<Rightarrow>
                (Inr (),
                 \<lparr>rendered = [st_subheader ([128220] @ ascii '' Result: '' @ choice),
                              st_markdown (ascii ''---''), st_markdown t],
                  calls = [issued_call g f text template]\<rparr>))"
  using assms
  by (simp add: try_block_def get_gemini_response_def Let_def split: sum.splits)

lemma submit_handler_generation:
  assumes "truthy (resolve_api_key (environ s))"
    and "uploaded_file s = Some f"
    and "map_of (g_PROMPT_OPTIONS g) (prompt_choice s) = Some template"
  shows "submit_handler rt g s =
           (g, case generate_content rt (issued_call g f (input_text s) template) of
                 Inl m \<Rightarrow> \<lparr>rendered = [st_error (ascii ''Error: '' @ m)],
                           calls = [issued_call g f (input_text s) template]\<rparr>
               | Inr t \<Rightarrow>
                   \<lparr>rendered = [st_subheader ([128220] @ ascii '' Result: '' @ prompt_choice s),
                                st_markdown (ascii ''---''), st_markdown t],
                    calls = [issued_call g f (input_text s) template]\<rparr>)"
  using assms
  by (simp add: submit_handler_def try_block_generation split: sum.splits)

lemma PROMPT_OPTIONS_keys:
  "map fst PROMPT_OPTIONS =
     [ascii ''Describe'', ascii ''Identify & Classify'', ascii ''Historical Context'',
      ascii ''Origin & Significance'', ascii ''Cultural Analysis'', ascii ''Conservation & Condition'']"
  by (simp add: PROMPT_OPTIONS_def)

lemma map_of_Describe: "map_of PROMPT_OPTIONS (ascii ''Describe'') = Some (snd (PROMPT_OPTIONS ! 0))"
  by (simp add: PROMPT_OPTIONS_def)

lemma map_of_Identify:
  "map_of PROMPT_OPTIONS (ascii ''Identify & Classify'') =
     Some (ascii ''You are an expert art historian. Identify and classify the artifact in the image. Specify its type, estimated era or period, materials used, cultural origin, and any distinguishing features that help with identification.'')"
  by (simp add: PROMPT_OPTIONS_def ascii_eq_iff)

lemma resolve_k1:
  "resolve_api_key (env_of [(''GEMINI_API_KEY'', ''k1'')]) = Some (ascii ''k1'')"
  by (simp add: resolve_api_key_def env_of_def py_or_def getenv_def truthy_def ascii_eq_iff ascii_Nil_iff)

text \<open>
  Claim C5. When the call to the service raises an exception with message \<open>m\<close>, the
  exception leaves the \<open>try\<close> block and is caught: the handler returns, and all it has
  drawn is the error text \<open>Error: \<close> followed by \<open>m\<close>, with no heading and no body.
\<close>

theorem remote_failure_gives_error_text:
  assumes "truthy (resolve_api_key (environ s))"
    and "uploaded_file s = Some f"
    and "map_of (g_PROMPT_OPTIONS g) (prompt_choice s) = Some template"
    and "generate_content rt (issued_call g f (input_text s) template) = Inl m"
  shows "fst (try_block rt g f (prompt_choice s) (input_text s)) = Inl (Exception m) \<and>
         submit_handler rt g s =
           (g, \<lparr>rendered = [st_error (ascii ''Error: '' @ m)],
                calls = [issued_call g f (input_text s) template]\<rparr>)"
  using assms by (simp add: submit_handler_generation try_block_generation)

theorem remote_failure_gives_error_text_witness:
  "rendered (snd (submit_handler (failing (ascii ''quota exceeded''))
       (globals_in (env_of [(''GEMINI_API_KEY'', ''k1'')]))
       \<lparr>environ = env_of [(''GEMINI_API_KEY'', ''k1'')], uploaded_file = Some png_file,
        prompt_choice = ascii ''Describe'', input_text = Some []\<rparr>)) =
     [st_error (ascii ''Error: quota exceeded'')]"
proof -
  let ?s = "\<lparr>environ = env_of [(''GEMINI_API_KEY'', ''k1'')], uploaded_file = Some png_file,
        prompt_choice = ascii ''Describe'', input_text = Some []\<rparr>"
  let ?g = "globals_in (env_of [(''GEMINI_API_KEY'', ''k1'')])"
  have h1: "truthy (resolve_api_key (environ ?s))"
    by (simp add: resolve_k1 truthy_simps ascii_Nil_iff)
  have h2: "uploaded_file ?s = Some png_file"
    by simp
  have h3: "map_of (g_PROMPT_OPTIONS ?g) (prompt_choice ?s) = Some (snd (PROMPT_OPTIONS ! 0))"
    by (simp add: map_of_Describe)
  have h4: "generate_content (failing (ascii ''quota exceeded''))
              (issued_call ?g png_file (input_text ?s) (snd (PROMPT_OPTIONS ! 0))) =
            Inl (ascii ''quota exceeded'')"
    by (simp add: failing_def)
  show ?thesis
    using remote_failure_gives_error_text [OF h1 h2 h3 h4]
    by (simp add: ascii_def)
qed

text \<open>
  Claim C6. The key is read from \<open>GEMINI_API_KEY\<close> first and \<open>GOOGLE_API_KEY\<close> second:
  a non-empty first variable is the key; when the first is unset or empty and the second
  is non-empty, the second is the key; no other variable is read; and whenever the
  client is built, it is built with that key.
\<close>

theorem api_key_resolution_order:
  "(\<forall>a. getenv env (ascii ''GEMINI_API_KEY'') = Some a \<and> a \<noteq> [] \<longrightarrow> resolve_api_key env = Some a) \<and>
   (\<forall>b. (getenv env (ascii ''GEMINI_API_KEY'') = None \<or> getenv env (ascii ''GEMINI_API_KEY'') = Some []) \<and>
        getenv env (ascii ''GOOGLE_API_KEY'') = Some b \<and> b \<noteq> [] \<longrightarrow>
        resolve_api_key env = Some b) \<and>
   (\<forall>env'. getenv env' (ascii ''GEMINI_API_KEY'') = getenv env (ascii ''GEMINI_API_KEY'') \<and>
           getenv env' (ascii ''GOOGLE_API_KEY'') = getenv env (ascii ''GOOGLE_API_KEY'') \<longrightarrow>
           resolve_api_key env' = resolve_api_key env) \<and>
   (\<forall>c. client rt env = Inr c \<longrightarrow> api_key c = resolve_api_key env)"
  by (auto simp add: resolve_api_key_def py_or_def truthy_def client_def genai_Client_def split: if_splits)

theorem api_key_resolution_order_witness:
  "resolve_api_key (env_of [(''GEMINI_API_KEY'', ''k1''), (''GOOGLE_API_KEY'', ''k2'')]) = Some (ascii ''k1'') \<and>
   resolve_api_key (env_of [(''GEMINI_API_KEY'', ''''), (''GOOGLE_API_KEY'', ''k2'')]) = Some (ascii ''k2'') \<and>
   resolve_api_key (env_of [(''GOOGLE_API_KEY'', ''k2'')]) = Some (ascii ''k2'')"
proof -
  let ?e1 = "env_of [(''GEMINI_API_KEY'', ''k1''), (''GOOGLE_API_KEY'', ''k2'')]"
  let ?e2 = "env_of [(''GEMINI_API_KEY'', ''''), (''GOOGLE_API_KEY'', ''k2'')]"
  let ?e3 = "env_of [(''GOOGLE_API_KEY'', ''k2'')]"
  have h1: "getenv ?e1 (ascii ''GEMINI_API_KEY'') = Some (ascii ''k1'') \<and> ascii ''k1'' \<noteq> []"
    by (simp add: getenv_def env_of_def ascii_Nil_iff)
  have h2: "(getenv ?e2 (ascii ''GEMINI_API_KEY'') = None \<or> getenv ?e2 (ascii ''GEMINI_API_KEY'') = Some []) \<and>
            getenv ?e2 (ascii ''GOOGLE_API_KEY'') = Some (ascii ''k2'') \<and> ascii ''k2'' \<noteq> []"
    by (simp add: getenv_def env_of_def ascii_Nil_iff ascii_eq_iff)
  have h3: "(getenv ?e3 (ascii ''GEMINI_API_KEY'') = None \<or> getenv ?e3 (ascii ''GEMINI_API_KEY'') = Some []) \<and>
            getenv ?e3 (ascii ''GOOGLE_API_KEY'') = Some (ascii ''k2'') \<and> ascii ''k2'' \<noteq> []"
    by (simp add: getenv_def env_of_def ascii_Nil_iff ascii_eq_iff)
  show ?thesis
    using h1 h2 h3 api_key_resolution_order [of ?e1] api_key_resolution_order [of ?e2]
      api_key_resolution_order [of ?e3]
    by blast
qed

section \<open>One run of the script\<close>

lemma module_init_with_key:
  "truthy (resolve_api_key env) \<Longrightarrow> module_init rt env = Inr (globals_in env)"
  by (simp add: module_init_def client_def genai_Client_def)

lemma module_init_without_key:
  "\<not> truthy (resolve_api_key env) \<Longrightarrow> \<not> vertexai rt \<Longrightarrow> module_init rt env = Inl ClientError"
  by (simp add: module_init_def client_def genai_Client_def)

lemma module_init_Inr: "module_init rt env = Inr g \<Longrightarrow> g = globals_in env"
  by (auto simp add: module_init_def client_def genai_Client_def split: if_splits)

lemma submit_handler_globals: "fst (submit_handler rt g s) = g"
  by (simp add: submit_handler_def Let_def split: option.splits prod.splits sum.splits)

lemma submit_handler_without_key:
  assumes "\<not> truthy (resolve_api_key (environ s))"
  shows "submit_handler rt g s =
           (g, \<lparr>rendered = [st_error (ascii ''Add GEMINI_API_KEY or GOOGLE_API_KEY to your .env file.'')],
                calls = []\<rparr>)"
  using assms by (simp add: submit_handler_def)

lemma run_without_key:
  assumes "\<not> truthy (resolve_api_key env)" and "\<not> vertexai rt"
  shows "script_run rt env ia =
           \<lparr>rendered = [], calls = [], stopped = Some ClientError, final_globals = None\<rparr>"
  using assms by (simp add: script_run_def module_init_without_key)

lemma script_run_generation:
  assumes key: "truthy (resolve_api_key env)"
    and up: "i_uploaded_file ia = Some f"
    and ok: "Image_open rt f"
    and w: "prompt_choice_widget (globals_in env) (i_pick ia) = Some choice"
    and t: "map_of PROMPT_OPTIONS choice = Some template"
    and sub: "i_submit ia"
  shows "script_run rt env ia =
           (case generate_content rt (issued_call (globals_in env) f (Some (i_input_text ia)) template) of
              Inl m \<Rightarrow>
                \<lparr>rendered = [st_error (ascii ''Error: '' @ m)],
                 calls = [issued_call (globals_in env) f (Some (i_input_text ia)) template],
                 stopped = None, final_globals = Some (globals_in env)\<rparr>
            | Inr r \<Rightarrow>
                \<lparr>rendered = [st_subheader ([128220] @ ascii '' Result: '' @ choice),
                             st_markdown (ascii ''---''), st_markdown r],
                 calls = [issued_call (globals_in env) f (Some (i_input_text ia)) template],
                 stopped = None, final_globals = Some (globals_in env)\<rparr>)"
proof -
  let ?s = "\<lparr>environ = env, uploaded_file = Some f, prompt_choice = choice,
             input_text = Some (i_input_text ia)\<rparr>"
  have h: "submit_handler rt (globals_in env) ?s =
             (globals_in env,
              case generate_content rt (issued_call (globals_in env) f (Some (i_input_text ia)) template) of
                Inl m \<Rightarrow> \<lparr>rendered = [st_error (ascii ''Error: '' @ m)],
                          calls = [issued_call (globals_in env) f (Some (i_input_text ia)) template]\<rparr>
              | Inr r \<Rightarrow>
                  \<lparr>rendered = [st_subheader ([128220] @ ascii '' Result: '' @ choice),
                               st_markdown (ascii ''---''), st_markdown r],
                   calls = [issued_call (globals_in env) f (Some (i_input_text ia)) template]\<rparr>)"
  proof -
    have t': "map_of (g_PROMPT_OPTIONS (globals_in env)) choice = Some template"
      using t by simp
    show ?thesis
      by (simp add: submit_handler_def key try_block_generation [OF t'] split: sum.splits)
  qed
  show ?thesis
    by (simp add: script_run_def module_init_with_key [OF key] up ok w sub h split: sum.splits)
qed

lemma resolve_k2:
  "resolve_api_key (env_of [(''GEMINI_API_KEY'', ''k2'')]) = Some (ascii ''k2'')"
  by (simp add: resolve_api_key_def env_of_def py_or_def getenv_def truthy_def ascii_eq_iff ascii_Nil_iff)


lemma final_globals_of_run:
  assumes "final_globals (script_run rt env ia) = Some g"
  shows "g = globals_in env"
proof (cases "module_init rt env")
  case (Inl e)
  with assms show ?thesis by (simp add: script_run_def)
next
  case (Inr g0)
  then have g0: "g0 = globals_in env" by (rule module_init_Inr)
  have "fst (submit_handler rt g0 s) = g0" for s
    by (rule submit_handler_globals)
  then have "submit_handler rt g0 s = (g', out) \<Longrightarrow> g' = g0" for s g' out
    by (metis fst_conv)
  with assms Inr have "g = g0"
    by (auto simp add: script_run_def split: if_splits option.splits prod.splits)
  with g0 show ?thesis by simp
qed

text \<open>
  Claim C7. The catalog has six entries, in the order written, under six different
  labels; the handler hands the globals back as it was given them; in every run of every
  session the catalog, once built, is these six entries; and the selection control
  starts at the first label.
\<close>

theorem prompt_catalog_fixed:
  "length PROMPT_OPTIONS = 6 \<and>
   map fst PROMPT_OPTIONS =
     [ascii ''Describe'', ascii ''Identify & Classify'', ascii ''Historical Context'',
      ascii ''Origin & Significance'', ascii ''Cultural Analysis'', ascii ''Conservation & Condition''] \<and>
   distinct (map fst PROMPT_OPTIONS) \<and>
   fst (submit_handler rt g s) = g \<and>
   (\<forall>r \<in> set (session runs). \<forall>g'. final_globals r = Some g' \<longrightarrow> g_PROMPT_OPTIONS g' = PROMPT_OPTIONS) \<and>
   (\<forall>g'. g_PROMPT_OPTIONS g' = PROMPT_OPTIONS \<longrightarrow>
      prompt_choice_widget g' None = Some (fst (PROMPT_OPTIONS ! 0))) \<and>
   fst (PROMPT_OPTIONS ! 0) = ascii ''Describe''"
proof -
  have "length PROMPT_OPTIONS = 6"
    by (simp add: PROMPT_OPTIONS_def)
  moreover have "distinct (map fst PROMPT_OPTIONS)"
    by (simp add: PROMPT_OPTIONS_keys ascii_eq_iff)
  moreover have "\<forall>r \<in> set (session runs). \<forall>g'. final_globals r = Some g' \<longrightarrow>
      g_PROMPT_OPTIONS g' = PROMPT_OPTIONS"
  proof (intro ballI allI impI)
    fix r g'
    assume "r \<in> set (session runs)" and f: "final_globals r = Some g'"
    then obtain rt' env' ia' where "r = script_run rt' env' ia'"
      by (auto simp add: session_def)
    with f have "g' = globals_in env'"
      using final_globals_of_run by blast
    then show "g_PROMPT_OPTIONS g' = PROMPT_OPTIONS" by simp
  qed
  moreover have "fst (PROMPT_OPTIONS ! 0) = ascii ''Describe''"
    by (simp add: PROMPT_OPTIONS_def)
  moreover have "prompt_choice_widget g' None = Some (fst (PROMPT_OPTIONS ! 0))"
    if "g_PROMPT_OPTIONS g' = PROMPT_OPTIONS" for g'
    using that by (simp add: prompt_choice_widget_def selectbox_def) (simp add: PROMPT_OPTIONS_def)
  ultimately show ?thesis
    using PROMPT_OPTIONS_keys submit_handler_globals [of rt g s] by simp
qed

theorem prompt_catalog_fixed_witness:
  "map (\<lambda>r. map_option (\<lambda>g. map fst (g_PROMPT_OPTIONS g)) (final_globals r))
     (session
        [(failing (ascii ''quota exceeded''), env_of [(''GEMINI_API_KEY'', ''k1'')],
          \<lparr>i_uploaded_file = Some png_file, i_pick = Some 4,
           i_input_text = ascii ''found in a temple'', i_submit = True\<rparr>),
         (answering (ascii ''A bronze axe head.''), env_of [(''GEMINI_API_KEY'', ''k1'')],
          \<lparr>i_uploaded_file = None, i_pick = None, i_input_text = [], i_submit = True\<rparr>)]) =
     [Some [ascii ''Describe'', ascii ''Identify & Classify'', ascii ''Historical Context'',
            ascii ''Origin & Significance'', ascii ''Cultural Analysis'', ascii ''Conservation & Condition''],
      Some [ascii ''Describe'', ascii ''Identify & Classify'', ascii ''Historical Context'',
            ascii ''Origin & Significance'', ascii ''Cultural Analysis'', ascii ''Conservation & Condition'']] \<and>
   prompt_choice_widget (globals_in (env_of [(''GEMINI_API_KEY'', ''k1'')])) None = Some (ascii ''Describe'')"
proof -
  let ?e = "env_of [(''GEMINI_API_KEY'', ''k1'')]"
  let ?ia1 = "\<lparr>i_uploaded_file = Some png_file, i_pick = Some 4,
           i_input_text = ascii ''found in a temple'', i_submit = True\<rparr>"
  let ?ia2 = "\<lparr>i_uploaded_file = None, i_pick = None, i_input_text = [], i_submit = True\<rparr>"
  let ?runs = "[(failing (ascii ''quota exceeded''), ?e, ?ia1),
                (answering (ascii ''A bronze axe head.''), ?e, ?ia2)]"
  have key: "truthy (resolve_api_key ?e)"
    by (simp add: resolve_k1 truthy_simps ascii_Nil_iff)
  have w1: "prompt_choice_widget (globals_in ?e) (i_pick ?ia1) = Some (ascii ''Cultural Analysis'')"
    by (simp add: prompt_choice_widget_def selectbox_def PROMPT_OPTIONS_keys)
  obtain template where t1: "map_of PROMPT_OPTIONS (ascii ''Cultural Analysis'') = Some template"
    by (simp add: PROMPT_OPTIONS_def ascii_eq_iff)
  have r1: "final_globals (script_run (failing (ascii ''quota exceeded'')) ?e ?ia1) = Some (globals_in ?e)"
    using script_run_generation [of ?e ?ia1 png_file "failing (ascii ''quota exceeded'')", OF key _ _ w1 t1]
    by (simp add: failing_def opens_def)
  have w2: "prompt_choice_widget (globals_in ?e) None = Some (ascii ''Describe'')"
    by (simp add: prompt_choice_widget_def selectbox_def PROMPT_OPTIONS_keys)
  have r2: "final_globals (script_run (answering (ascii ''A bronze axe head.'')) ?e ?ia2) = Some (globals_in ?e)"
    by (simp add: script_run_def module_init_with_key [OF key] w2 submit_handler_def key)
  show ?thesis
    using prompt_catalog_fixed [of _ _ _ ?runs] r1 r2 w2
    by (simp add: session_def PROMPT_OPTIONS_keys)
qed

lemma widget_position_1:
  "prompt_choice_widget (globals_in env) (Some 1) = Some (ascii ''Identify & Classify'')"
  by (simp add: prompt_choice_widget_def selectbox_def PROMPT_OPTIONS_keys)

lemma full_prompt_empty: "full_prompt (or_empty (Some [])) p = p"
  by (simp add: or_empty_simps full_prompt_def strip_def)

lemma identify_run:
  assumes "truthy (resolve_api_key env)"
    and "i_uploaded_file ia = Some f"
    and "Image_open rt f"
    and "i_pick ia = Some 1"
    and "i_input_text ia = []"
    and "i_submit ia"
  shows "script_run rt env ia =
           (case generate_content rt
                   \<lparr>through = \<lparr>api_key = resolve_api_key env\<rparr>, model = ascii ''gemini-3-flash-preview'',
                    contents = (snd (PROMPT_OPTIONS ! 1), \<lparr>data = getvalue f, mime_type = file_type f\<rparr>)\<rparr> of
              Inl m \<Rightarrow>
                \<lparr>rendered = [st_error (ascii ''Error: '' @ m)],
                 calls = [\<lparr>through = \<lparr>api_key = resolve_api_key env\<rparr>, model = ascii ''gemini-3-flash-preview'',
                    contents = (snd (PROMPT_OPTIONS ! 1), \<lparr>data = getvalue f, mime_type = file_type f\<rparr>)\<rparr>],
                 stopped = None, final_globals = Some (globals_in env)\<rparr>
            | Inr r \<Rightarrow>
                \<lparr>rendered = [st_subheader ([128220] @ ascii '' Result: '' @ ascii ''Identify & Classify''),
                             st_markdown (ascii ''---''), st_markdown r],
                 calls = [\<lparr>through = \<lparr>api_key = resolve_api_key env\<rparr>, model = ascii ''gemini-3-flash-preview'',
                    contents = (snd (PROMPT_OPTIONS ! 1), \<lparr>data = getvalue f, mime_type = file_type f\<rparr>)\<rparr>],
                 stopped = None, final_globals = Some (globals_in env)\<rparr>)"
proof -
  have w: "prompt_choice_widget (globals_in env) (i_pick ia) = Some (ascii ''Identify & Classify'')"
    unfolding assms(4) by (rule widget_position_1)
  have t: "map_of PROMPT_OPTIONS (ascii ''Identify & Classify'') = Some (snd (PROMPT_OPTIONS ! 1))"
    by (simp add: PROMPT_OPTIONS_def ascii_eq_iff)
  show ?thesis
    unfolding script_run_generation [OF assms(1) assms(2) assms(3) w t assms(6)]
    by (simp add: assms(5) full_prompt_empty split: sum.splits)
qed

lemma template_at_position_1:
  "snd (PROMPT_OPTIONS ! 1) =
     ascii ''You are an expert art historian. Identify and classify the artifact in the image. Specify its type, estimated era or period, materials used, cultural origin, and any distinguishing features that help with identification.''"
  by (simp add: PROMPT_OPTIONS_def)

text \<open>
  Claim C8 as stated says the heading is \<open>Result: Identify & Classify\<close>. On the scenario
  of the specification, with a complete PNG file uploaded, no such heading is drawn:
  line 113 puts a pictograph and a space before \<open>Result:\<close>.
\<close>

theorem heading_is_not_bare_result_label:
  "st_subheader (ascii ''Result: Identify & Classify'') \<notin>
     set (rendered (script_run (answering (ascii ''A bronze axe head.''))
       (env_of [(''GEMINI_API_KEY'', ''k1'')])
       \<lparr>i_uploaded_file = Some png_file, i_pick = Some 1, i_input_text = [], i_submit = True\<rparr>))"
proof -
  let ?ia = "\<lparr>i_uploaded_file = Some png_file, i_pick = Some 1, i_input_text = [], i_submit = True\<rparr>"
  let ?e = "env_of [(''GEMINI_API_KEY'', ''k1'')]"
  have h1: "truthy (resolve_api_key ?e)"
    by (simp add: resolve_k1 truthy_simps ascii_Nil_iff)
  have h3: "Image_open (answering (ascii ''A bronze axe head.'')) png_file"
    by (simp add: answering_def opens_def)
  have "rendered (script_run (answering (ascii ''A bronze axe head.'')) ?e ?ia) =
          [st_subheader ([128220] @ ascii '' Result: '' @ ascii ''Identify & Classify''),
           st_markdown (ascii ''---''), st_markdown (ascii ''A bronze axe head.'')]"
    using identify_run [of ?e ?ia png_file "answering (ascii ''A bronze axe head.'')", OF h1 _ h3]
    by (simp add: answering_def)
  then show ?thesis
    by (simp add: ascii_def)
qed

text \<open>
  Claim C8, amended. In a run with a key, an uploaded file that the image preview
  accepts, the option \<open>Identify & Classify\<close> (position 1 of the selection control), an
  empty free text and the button pressed, the service is called once, with the template
  of that option as it is written and the bytes of the file; when it answers \<open>t\<close>, the run
  ends normally and has drawn the heading made of the pictograph U+1F4DC, a space and
  \<open>Result: Identify & Classify\<close>, then a rule, then \<open>t\<close>.
\<close>

theorem identify_scenario_call_and_result:
  assumes "truthy (resolve_api_key env)"
    and "i_uploaded_file ia = Some f"
    and "Image_open rt f"
    and "i_pick ia = Some 1"
    and "i_input_text ia = []"
    and "i_submit ia"
  shows "prompt_choice_widget (globals_in env) (i_pick ia) = Some (ascii ''Identify & Classify'') \<and>
         calls (script_run rt env ia) =
           [\<lparr>through = \<lparr>api_key = resolve_api_key env\<rparr>, model = ascii ''gemini-3-flash-preview'',
             contents =
               (ascii ''You are an expert art historian. Identify and classify the artifact in the image. Specify its type, estimated era or period, materials used, cultural origin, and any distinguishing features that help with identification.'',
                \<lparr>data = getvalue f, mime_type = file_type f\<rparr>)\<rparr>] \<and>
         (\<forall>t. generate_content rt
                 \<lparr>through = \<lparr>api_key = resolve_api_key env\<rparr>, model = ascii ''gemini-3-flash-preview'',
                  contents =
                    (ascii ''You are an expert art historian. Identify and classify the artifact in the image. Specify its type, estimated era or period, materials used, cultural origin, and any distinguishing features that help with identification.'',
                     \<lparr>data = getvalue f, mime_type = file_type f\<rparr>)\<rparr> = Inr t \<longrightarrow>
              rendered (script_run rt env ia) =
                [st_subheader ([128220] @ ascii '' Result: Identify & Classify''),
                 st_markdown (ascii ''---''), st_markdown t] \<and>
              stopped (script_run rt env ia) = None)"
proof -
  have a: "ascii '' Result: '' @ ascii ''Identify & Classify'' = ascii '' Result: Identify & Classify''"
    by (simp add: ascii_def)
  have w: "prompt_choice_widget (globals_in env) (i_pick ia) = Some (ascii ''Identify & Classify'')"
    unfolding assms(4) by (rule widget_position_1)
  show ?thesis
    unfolding identify_run [OF assms] template_at_position_1
    using w by (auto simp add: a split: sum.splits)
qed

theorem identify_scenario_call_and_result_witness:
  "map (\<lambda>c. data (snd (contents c)))
     (calls (script_run (answering (ascii ''A bronze axe head.''))
       (env_of [(''GEMINI_API_KEY'', ''k1'')])
       \<lparr>i_uploaded_file = Some png_file, i_pick = Some 1, i_input_text = [], i_submit = True\<rparr>)) =
     [getvalue png_file] \<and>
   rendered (script_run (answering (ascii ''A bronze axe head.''))
       (env_of [(''GEMINI_API_KEY'', ''k1'')])
       \<lparr>i_uploaded_file = Some png_file, i_pick = Some 1, i_input_text = [], i_submit = True\<rparr>) =
     [st_subheader ([128220] @ ascii '' Result: Identify & Classify''),
      st_markdown (ascii ''---''), st_markdown (ascii ''A bronze axe head.'')]"
proof -
  let ?ia = "\<lparr>i_uploaded_file = Some png_file, i_pick = Some 1, i_input_text = [], i_submit = True\<rparr>"
  let ?e = "env_of [(''GEMINI_API_KEY'', ''k1'')]"
  have h1: "truthy (resolve_api_key ?e)"
    by (simp add: resolve_k1 truthy_simps ascii_Nil_iff)
  have h2: "i_uploaded_file ?ia = Some png_file"
    by simp
  have h3: "Image_open (answering (ascii ''A bronze axe head.'')) png_file"
    by (simp add: answering_def opens_def)
  have h4: "i_pick ?ia = Some 1"
    by simp
  have h5: "i_input_text ?ia = []"
    by simp
  have h6: "i_submit ?ia"
    by simp
  have r: "generate_content (answering (ascii ''A bronze axe head.'')) c = Inr (ascii ''A bronze axe head.'')" for c
    by (simp add: answering_def)
  show ?thesis
    using identify_scenario_call_and_result [OF h1 h2 h3 h4 h5 h6] r
    by simp
qed

section \<open>The key behind a request\<close>

lemma submit_handler_calls_through:
  "c \<in> set (calls (snd (submit_handler rt g s))) \<Longrightarrow> through c = g_client g"
proof (cases "truthy (resolve_api_key (environ s))")
  case False
  then show "c \<in> set (calls (snd (submit_handler rt g s))) \<Longrightarrow> through c = g_client g"
    by (simp add: submit_handler_def)
next
  case key: True
  show "c \<in> set (calls (snd (submit_handler rt g s))) \<Longrightarrow> through c = g_client g"
  proof (cases "uploaded_file s")
    case None
    with key show "c \<in> set (calls (snd (submit_handler rt g s))) \<Longrightarrow> through c = g_client g"
      by (simp add: submit_handler_def)
  next
    case (Some f)
    show "c \<in> set (calls (snd (submit_handler rt g s))) \<Longrightarrow> through c = g_client g"
    proof (cases "map_of (g_PROMPT_OPTIONS g) (prompt_choice s)")
      case None
      with key Some show "c \<in> set (calls (snd (submit_handler rt g s))) \<Longrightarrow> through c = g_client g"
        by (simp add: submit_handler_def try_block_def)
    next
      case (Some template)
      assume "c \<in> set (calls (snd (submit_handler rt g s)))"
      then show "through c = g_client g"
        unfolding submit_handler_generation [OF key \<open>uploaded_file s = Some f\<close> Some]
        by (cases "generate_content rt (issued_call g f (input_text s) template)") auto
    qed
  qed
qed

lemma submit_handler_calls_need_key:
  assumes "c \<in> set (calls (snd (submit_handler rt g s)))"
  shows "truthy (resolve_api_key (environ s))"
proof (rule ccontr)
  assume "\<not> truthy (resolve_api_key (environ s))"
  then have "calls (snd (submit_handler rt g s)) = []"
    by (simp add: submit_handler_without_key)
  with assms show False by simp
qed

lemma script_run_calls:
  assumes "c \<in> set (calls (script_run rt env ia))"
  shows "through c = \<lparr>api_key = resolve_api_key env\<rparr> \<and> truthy (resolve_api_key env)"
proof (cases "module_init rt env")
  case (Inl e)
  with assms show ?thesis by (simp add: script_run_def)
next
  case (Inr g)
  then have g: "g = globals_in env" by (rule module_init_Inr)
  show ?thesis
  proof (cases "prompt_choice_widget g (i_pick ia)")
    case None
    with assms Inr show ?thesis
      by (simp add: script_run_def split: if_splits)
  next
    case (Some choice)
    let ?s = "\<lparr>environ = env, uploaded_file = i_uploaded_file ia, prompt_choice = choice,
               input_text = Some (i_input_text ia)\<rparr>"
    have "calls (script_run rt env ia) = [] \<or>
          calls (script_run rt env ia) = calls (snd (submit_handler rt g ?s))"
      using Inr Some by (simp add: script_run_def split: prod.splits)
    with assms have in_handler: "c \<in> set (calls (snd (submit_handler rt g ?s)))"
      by auto
    from submit_handler_calls_through [OF in_handler] submit_handler_calls_need_key [OF in_handler] g
    show ?thesis by simp
  qed
qed

text \<open>
  Claim C9 as stated says that the client keeps the key resolved when the process
  started, so that a key set in the environment later passes the test of line 100 while
  the request still goes out with the old, possibly absent, key. The script is executed
  from line 1 at each interaction: in a session whose environment has no key, then the
  key \<open>k1\<close>, then the key \<open>k2\<close>, the first run stops on line 12 and calls nothing, the
  second calls the service with \<open>k1\<close> and the third with \<open>k2\<close>.
\<close>

theorem later_runs_use_the_later_key:
  "map keys_used
     (session
        [(answering (ascii ''A bronze axe head.''), env_of [],
          \<lparr>i_uploaded_file = Some png_file, i_pick = Some 1, i_input_text = [], i_submit = True\<rparr>),
         (answering (ascii ''A bronze axe head.''), env_of [(''GEMINI_API_KEY'', ''k1'')],
          \<lparr>i_uploaded_file = Some png_file, i_pick = Some 1, i_input_text = [], i_submit = True\<rparr>),
         (answering (ascii ''A bronze axe head.''), env_of [(''GEMINI_API_KEY'', ''k2'')],
          \<lparr>i_uploaded_file = Some png_file, i_pick = Some 1, i_input_text = [], i_submit = True\<rparr>)]) =
     [[], [Some (ascii ''k1'')], [Some (ascii ''k2'')]]"
proof -
  let ?rt = "answering (ascii ''A bronze axe head.'')"
  let ?ia = "\<lparr>i_uploaded_file = Some png_file, i_pick = Some 1, i_input_text = [], i_submit = True\<rparr>"
  have k0: "\<not> truthy (resolve_api_key (env_of []))"
    by (simp add: resolve_api_key_env_of_empty truthy_simps)
  have v: "\<not> vertexai ?rt"
    by (simp add: answering_def)
  have k1: "truthy (resolve_api_key (env_of [(''GEMINI_API_KEY'', ''k1'')]))"
    by (simp add: resolve_k1 truthy_simps ascii_Nil_iff)
  have k2: "truthy (resolve_api_key (env_of [(''GEMINI_API_KEY'', ''k2'')]))"
    by (simp add: resolve_k2 truthy_simps ascii_Nil_iff)
  have im: "Image_open ?rt png_file"
    by (simp add: answering_def opens_def)
  have r0: "keys_used (script_run ?rt (env_of []) ?ia) = []"
    by (simp add: keys_used_def run_without_key [OF k0 v])
  have r1: "keys_used (script_run ?rt (env_of [(''GEMINI_API_KEY'', ''k1'')]) ?ia) = [Some (ascii ''k1'')]"
    using identify_run [of "env_of [(''GEMINI_API_KEY'', ''k1'')]" ?ia png_file ?rt, OF k1 _ im]
    by (simp add: keys_used_def answering_def resolve_k1)
  have r2: "keys_used (script_run ?rt (env_of [(''GEMINI_API_KEY'', ''k2'')]) ?ia) = [Some (ascii ''k2'')]"
    using identify_run [of "env_of [(''GEMINI_API_KEY'', ''k2'')]" ?ia png_file ?rt, OF k2 _ im]
    by (simp add: keys_used_def answering_def resolve_k2)
  show ?thesis
    by (simp only: session_def list.map case_prod_conv r0 r1 r2)
qed

text \<open>
  Claim C9, amended. In each run the client is built on line 12 from the environment
  that line 99 of the same run reads, and nothing later in the run changes it: every
  request of a run goes through a client whose key is the key resolved from that run's
  environment, which is not absent and not empty, and the globals the run leaves hold
  that client.
\<close>

theorem request_key_is_the_runs_key:
  "(\<forall>c \<in> set (calls (script_run rt env ia)).
      api_key (through c) = resolve_api_key env \<and> truthy (api_key (through c))) \<and>
   (\<forall>g. final_globals (script_run rt env ia) = Some g \<longrightarrow>
      api_key (g_client g) = resolve_api_key env)"
proof (intro conjI ballI allI impI)
  fix c
  assume "c \<in> set (calls (script_run rt env ia))"
  from script_run_calls [OF this]
  show "api_key (through c) = resolve_api_key env" and "truthy (api_key (through c))"
    by simp_all
next
  fix g
  assume "final_globals (script_run rt env ia) = Some g"
  then have "g = globals_in env"
    by (rule final_globals_of_run)
  then show "api_key (g_client g) = resolve_api_key env"
    by simp
qed

theorem request_key_is_the_runs_key_witness:
  "keys_used (script_run (answering (ascii ''A bronze axe head.''))
       (env_of [(''GEMINI_API_KEY'', ''k2'')])
       \<lparr>i_uploaded_file = Some png_file, i_pick = Some 1, i_input_text = [], i_submit = True\<rparr>) =
     [resolve_api_key (env_of [(''GEMINI_API_KEY'', ''k2'')])] \<and>
   resolve_api_key (env_of [(''GEMINI_API_KEY'', ''k2'')]) = Some (ascii ''k2'')"
proof -
  let ?rt = "answering (ascii ''A bronze axe head.'')"
  let ?e = "env_of [(''GEMINI_API_KEY'', ''k2'')]"
  let ?ia = "\<lparr>i_uploaded_file = Some png_file, i_pick = Some 1, i_input_text = [], i_submit = True\<rparr>"
  have k2: "truthy (resolve_api_key ?e)"
    by (simp add: resolve_k2 truthy_simps ascii_Nil_iff)
  have im: "Image_open ?rt png_file"
    by (simp add: answering_def opens_def)
  obtain c where c: "calls (script_run ?rt ?e ?ia) = [c]"
    using identify_run [of ?e ?ia png_file ?rt, OF k2 _ im]
    by (simp add: answering_def)
  then have "c \<in> set (calls (script_run ?rt ?e ?ia))"
    by simp
  with request_key_is_the_runs_key [of ?rt ?e ?ia]
  have "api_key (through c) = resolve_api_key ?e"
    by blast
  with c show ?thesis
    by (simp add: keys_used_def resolve_k2)
qed

section \<open>The selection control and the catalog lookup\<close>

lemma selectbox_in_options: "selectbox options index pick = Some c \<Longrightarrow> c \<in> set options"
  by (auto simp add: selectbox_def Let_def split: if_splits)

lemma map_of_key_present: "c \<in> set (map fst kvs) \<Longrightarrow> \<exists>v. map_of kvs c = Some v"
  by (metis domD dom_map_of_conv_image_fst list.set_map)

lemma prompt_choice_widget_in_range:
  assumes "g_PROMPT_OPTIONS g = PROMPT_OPTIONS"
    and "pick = None \<or> (\<exists>i < 6. pick = Some i)"
  shows "\<exists>choice. prompt_choice_widget g pick = Some choice"
proof -
  have len: "length (map fst (g_PROMPT_OPTIONS g)) = 6"
    by (simp add: assms(1) PROMPT_OPTIONS_def)
  from assms(2) show ?thesis
  proof
    assume "pick = None"
    then show ?thesis
      by (simp only: prompt_choice_widget_def selectbox_def Let_def len option.case) simp
  next
    assume "\<exists>i < 6. pick = Some i"
    then obtain i where "i < 6" and "pick = Some i" by blast
    then show ?thesis
      by (simp only: prompt_choice_widget_def selectbox_def Let_def len option.case) simp
  qed
qed

lemma try_block_no_KeyError:
  assumes "map_of (g_PROMPT_OPTIONS g) choice = Some template"
  shows "fst (try_block rt g f choice text) \<noteq> Inl (KeyError k)"
proof (cases "generate_content rt (issued_call g f text template)")
  case (Inl m)
  then show ?thesis by (simp add: try_block_generation [OF assms])
next
  case (Inr t)
  then show ?thesis by (simp add: try_block_generation [OF assms])
qed

text \<open>
  Claim C10. The selection control offers the keys of the catalog and nothing else, so
  whichever of the six positions the user picks, or none, the label it returns is a key
  of the catalog: the lookup of line 108 finds a template and the \<open>try\<close> block never
  ends in a \<open>KeyError\<close>. This holds for the globals of every run, whose catalog is the
  one of lines 15 to 22.
\<close>

theorem selected_label_is_in_catalog:
  assumes "g_PROMPT_OPTIONS g = PROMPT_OPTIONS"
    and "pick = None \<or> (\<exists>i < 6. pick = Some i)"
  shows "\<exists>choice template.
           prompt_choice_widget g pick = Some choice \<and>
           map_of (g_PROMPT_OPTIONS g) choice = Some template \<and>
           (\<forall>k. fst (try_block rt g f choice text) \<noteq> Inl (KeyError k))"
proof -
  from prompt_choice_widget_in_range [OF assms] obtain choice where
    w: "prompt_choice_widget g pick = Some choice" ..
  from w have "selectbox (map fst (g_PROMPT_OPTIONS g)) 0 pick = Some choice"
    by (simp only: prompt_choice_widget_def)
  then have "choice \<in> set (map fst (g_PROMPT_OPTIONS g))"
    by (rule selectbox_in_options)
  from map_of_key_present [OF this] obtain template where
    t: "map_of (g_PROMPT_OPTIONS g) choice = Some template" ..
  have nk: "\<forall>k. fst (try_block rt g f choice text) \<noteq> Inl (KeyError k)"
    using try_block_no_KeyError [OF t] by (rule allI)
  show ?thesis
    by (rule exI [of _ choice], rule exI [of _ template]) (simp only: w t nk simp_thms)
qed

theorem selected_label_is_in_catalog_witness:
  "prompt_choice_widget (globals_in (env_of [(''GEMINI_API_KEY'', ''k1'')])) (Some 3) =
     Some (ascii ''Origin & Significance'') \<and>
   map_of (g_PROMPT_OPTIONS (globals_in (env_of [(''GEMINI_API_KEY'', ''k1'')])))
     (ascii ''Origin & Significance'') \<noteq> None"
proof -
  let ?g = "globals_in (env_of [(''GEMINI_API_KEY'', ''k1'')])"
  have c: "g_PROMPT_OPTIONS ?g = PROMPT_OPTIONS"
    by simp
  have h: "Some (3::nat) = None \<or> (\<exists>i < 6. Some (3::nat) = Some i)"
    by simp
  have w: "prompt_choice_widget ?g (Some 3) = Some (ascii ''Origin & Significance'')"
    by (simp add: prompt_choice_widget_def selectbox_def PROMPT_OPTIONS_keys)
  from selected_label_is_in_catalog [OF c h, of "answering []" png_file None]
  obtain choice template where
    a: "prompt_choice_widget ?g (Some 3) = Some choice" and
    b: "map_of (g_PROMPT_OPTIONS ?g) choice = Some template"
    by blast
  from a w have "choice = ascii ''Origin & Significance''"
    by simp
  with b have m: "map_of (g_PROMPT_OPTIONS ?g) (ascii ''Origin & Significance'') \<noteq> None"
    by simp
  from w m show ?thesis
    by (rule conjI)
qed

end
